theory Spec2Isabelle
  imports Main "HOL-Library.Word" "HOL-Library.Sublist"
begin

section \<open>Errors\<close>

text \<open>
  Go's \<open>error\<close> values. \<open>ext_error\<close> collects what the collaborators of the package can
  return (package \<open>os\<close>, the content store, the metadata store); \<open>error\<close> adds the
  sentinel errors of package \<open>vfs\<close> itself, which no collaborator can produce. A Go
  \<open>error\<close> that may be \<open>nil\<close> is an \<open>error option\<close>.
\<close>

type_synonym path = string

datatype ext_error =
    OsErrNotExist
  | OsErrExist
  | OsErrInvalid
  | PathErrNotExist string path
  | PathErrExist string path
  | CouchError nat string
  | IOError string

datatype error =
    ErrInvalidHash
  | ErrContentLengthMismatch
  | ErrConflict
  | ErrNonAbsolutePath
  | ErrFileInTrash
  | ErrIllegalFilename
  | ErrIllegalTime
  | Ext ext_error

text \<open>\<open>os.IsNotExist\<close> and \<open>os.IsExist\<close>: they look through one \<open>*os.PathError\<close>.\<close>

fun os_IsNotExist :: "error \<Rightarrow> bool" where
  "os_IsNotExist (Ext OsErrNotExist) = True"
| "os_IsNotExist (Ext (PathErrNotExist opn p)) = True"
| "os_IsNotExist e = False"

fun os_IsExist :: "error \<Rightarrow> bool" where
  "os_IsExist (Ext OsErrExist) = True"
| "os_IsExist (Ext (PathErrExist opn p)) = True"
| "os_IsExist e = False"

section \<open>Package \<open>path\<close>\<close>

text \<open>
  The lexical path functions of Go's standard library that the file unit calls:
  \<open>path.IsAbs\<close>, \<open>path.Clean\<close>, \<open>path.Join\<close> and \<open>path.Dir\<close>, after their documented
  rules (collapse slashes, drop \<open>.\<close>, resolve inner \<open>..\<close>, drop \<open>..\<close> at the root, the
  empty result is \<open>.\<close>).
\<close>

definition path_IsAbs :: "path \<Rightarrow> bool" where
  "path_IsAbs p = (case p of [] \<Rightarrow> False | c # cs \<Rightarrow> c = CHR ''/'')"

fun split_slash :: "string \<Rightarrow> string list" where
  "split_slash [] = [[]]"
| "split_slash (c # cs) =
     (if c = CHR ''/'' then [] # split_slash cs
      else (case split_slash cs of [] \<Rightarrow> [[c]] | e # es \<Rightarrow> (c # e) # es))"

fun join_slash :: "string list \<Rightarrow> string" where
  "join_slash [] = []"
| "join_slash [e] = e"
| "join_slash (e # es) = e @ CHR ''/'' # join_slash es"

fun clean_elems :: "bool \<Rightarrow> string list \<Rightarrow> string list \<Rightarrow> string list" where
  "clean_elems rooted st [] = rev st"
| "clean_elems rooted st (e # es) =
     (if e = [] \<or> e = ''.'' then clean_elems rooted st es
      else if e = ''..'' then
        (case st of
           [] \<Rightarrow> if rooted then clean_elems rooted [] es else clean_elems rooted [e] es
         | t # ts \<Rightarrow> if t = ''..'' then clean_elems rooted (e # st) es
                     else clean_elems rooted ts es)
      else clean_elems rooted (e # st) es)"

definition path_Clean :: "path \<Rightarrow> path" where
  "path_Clean p =
     (if p = [] then ''.''
      else let rooted = path_IsAbs p;
               body = join_slash (clean_elems rooted [] (split_slash p))
           in if rooted then CHR ''/'' # body
              else if body = [] then ''.'' else body)"

definition path_Join :: "path \<Rightarrow> path \<Rightarrow> path" where
  "path_Join a b =
     (case filter (\<lambda>e. e \<noteq> []) [a, b] of
        [] \<Rightarrow> []
      | es \<Rightarrow> path_Clean (join_slash es))"

definition path_Dir :: "path \<Rightarrow> path" where
  "path_Dir p = path_Clean (rev (dropWhile (\<lambda>c. c \<noteq> CHR ''/'') (rev p)))"

text \<open>\<open>strings.HasPrefix s pre\<close> is \<^term>\<open>prefix pre s\<close>.\<close>

definition strings_HasPrefix :: "string \<Rightarrow> string \<Rightarrow> bool" where
  "strings_HasPrefix s pre = prefix pre s"

section \<open>Constants declared outside the file unit\<close>

text \<open>
  Modelled from the spec: the reserved identifiers and names of packages \<open>consts\<close> and
  \<open>vfs\<close> (root directory id, trash directory id, document type of a file, trash root
  and the conflict suffix pattern), which the file unit uses and does not declare. The
  spec asks for named constants, the root id distinct from the trash id.
\<close>

definition RootDirID :: string where
  "RootDirID = ''io.cozy.files.root-dir''"

definition TrashDirID :: string where
  "TrashDirID = ''io.cozy.files.trash-dir''"

definition FileType :: string where
  "FileType = ''file''"

definition TrashDirName :: path where
  "TrashDirName = ''/.cozy_trash''"

section \<open>Documents\<close>

type_synonym byte = "8 word"
type_synonym bytes = "byte list"
type_synonym int64 = "64 word"
type_synonym time = nat

text \<open>
  The part of a directory document the file unit reads: its id and its resolved
  absolute path.
\<close>

record DirDoc =
  dir_DocID :: string
  Fullpath :: path

text \<open>
  \<open>FileDoc\<close>, field by field. \<open>MD5Sum\<close> is a byte slice that may be \<open>nil\<close>; \<open>parent\<close> is
  the unexported cache of the parent directory, \<open>nil\<close> until resolved.
\<close>

record FileDoc =
  Type :: string
  DocID :: string
  DocRev :: string
  Name :: string
  DirID :: string
  RestorePath :: string
  CreatedAt :: time
  UpdatedAt :: time
  Size :: int64
  MD5Sum :: "bytes option"
  Mime :: string
  Class :: string
  Executable :: bool
  Tags :: "string list"
  ReferencedBy :: "(string \<times> string) list"
  parent :: "DirDoc option"

section \<open>The content store and the metadata store\<close>

text \<open>
  The two stores are consumed through interfaces (\<open>afero.Fs\<close>, package \<open>couchdb\<close>).
  The model is an in-memory world: a flat map from path to file entry, a map from id to
  file document, a map from id to directory document. Every call to a store is recorded
  in \<open>calls\<close>, and \<open>faults\<close> schedules the outcome of the coming calls, one entry per
  call: \<open>Some e\<close> makes the call fail with \<open>e\<close> and change nothing, \<open>None\<close> (or an
  exhausted schedule) lets it behave as the store's contract says. So every error
  branch of the file unit is reachable.
\<close>

record fdata =
  content :: bytes
  perm :: nat

datatype call =
    CStat path
  | CRename path path
  | CRemove path
  | COpenFile path
  | CChmod path nat
  | CWrite path
  | CClose path
  | CGetDir string
  | CCreateDoc
  | CUpdateDoc string
  | CDeleteDoc string

record world =
  files :: "path \<rightharpoonup> fdata"
  docs :: "string \<rightharpoonup> FileDoc"
  dirs :: "string \<rightharpoonup> DirDoc"
  faults :: "ext_error option list"
  calls :: "call list"
  clock :: time
  nextid :: nat

definition external :: "call \<Rightarrow> world \<Rightarrow> ext_error option \<times> world" where
  "external k w =
     (case faults w of
        [] \<Rightarrow> (None, w\<lparr>calls := calls w @ [k]\<rparr>)
      | x # xs \<Rightarrow> (x, w\<lparr>faults := xs, calls := calls w @ [k]\<rparr>))"

subsection \<open>Content store\<close>

datatype open_flag = O_WRONLY | O_CREATE | O_EXCL

datatype afero_File = Handle path

fun handle_name :: "afero_File \<Rightarrow> path" where
  "handle_name (Handle p) = p"

definition fs_Stat :: "path \<Rightarrow> world \<Rightarrow> ext_error option \<times> world" where
  "fs_Stat name w =
     (case external (CStat name) w of
        (Some e, w1) \<Rightarrow> (Some e, w1)
      | (None, w1) \<Rightarrow>
          (case files w1 name of
             None \<Rightarrow> (Some (PathErrNotExist ''stat'' name), w1)
           | Some d \<Rightarrow> (None, w1)))"

text \<open>Renaming replaces whatever is at the new name, as \<open>rename(2)\<close> does.\<close>

definition fs_Rename :: "path \<Rightarrow> path \<Rightarrow> world \<Rightarrow> ext_error option \<times> world" where
  "fs_Rename oldname newname w =
     (case external (CRename oldname newname) w of
        (Some e, w1) \<Rightarrow> (Some e, w1)
      | (None, w1) \<Rightarrow>
          (case files w1 oldname of
             None \<Rightarrow> (Some (PathErrNotExist ''rename'' oldname), w1)
           | Some d \<Rightarrow> (None, w1\<lparr>files := (files w1)(oldname := None, newname \<mapsto> d)\<rparr>)))"

definition fs_Remove :: "path \<Rightarrow> world \<Rightarrow> ext_error option \<times> world" where
  "fs_Remove name w =
     (case external (CRemove name) w of
        (Some e, w1) \<Rightarrow> (Some e, w1)
      | (None, w1) \<Rightarrow>
          (case files w1 name of
             None \<Rightarrow> (Some (PathErrNotExist ''remove'' name), w1)
           | Some d \<Rightarrow> (None, w1\<lparr>files := (files w1)(name := None)\<rparr>)))"

definition fs_Chmod :: "path \<Rightarrow> nat \<Rightarrow> world \<Rightarrow> ext_error option \<times> world" where
  "fs_Chmod name mode w =
     (case external (CChmod name mode) w of
        (Some e, w1) \<Rightarrow> (Some e, w1)
      | (None, w1) \<Rightarrow>
          (case files w1 name of
             None \<Rightarrow> (Some (PathErrNotExist ''chmod'' name), w1)
           | Some d \<Rightarrow> (None, w1\<lparr>files := (files w1)(name \<mapsto> d\<lparr>perm := mode\<rparr>)\<rparr>)))"

definition fs_OpenFile ::
  "path \<Rightarrow> open_flag list \<Rightarrow> nat \<Rightarrow> world \<Rightarrow> (ext_error + afero_File) \<times> world" where
  "fs_OpenFile name flag mode w =
     (case external (COpenFile name) w of
        (Some e, w1) \<Rightarrow> (Inl e, w1)
      | (None, w1) \<Rightarrow>
          (case files w1 name of
             Some d \<Rightarrow>
               if O_CREATE \<in> set flag \<and> O_EXCL \<in> set flag
               then (Inl (PathErrExist ''open'' name), w1)
               else (Inr (Handle name), w1)
           | None \<Rightarrow>
               if O_CREATE \<in> set flag
               then (Inr (Handle name),
                     w1\<lparr>files := (files w1)(name \<mapsto> \<lparr>content = [], perm = mode\<rparr>)\<rparr>)
               else (Inl (PathErrNotExist ''open'' name), w1)))"

text \<open>
  Writing through a handle appends to the entry and returns the number of bytes
  taken; a write that fails takes none.
\<close>

definition file_Write :: "afero_File \<Rightarrow> bytes \<Rightarrow> world \<Rightarrow> (int \<times> ext_error option) \<times> world" where
  "file_Write h p w =
     (case external (CWrite (handle_name h)) w of
        (Some e, w1) \<Rightarrow> ((0, Some e), w1)
      | (None, w1) \<Rightarrow>
          (case files w1 (handle_name h) of
             None \<Rightarrow> ((0, Some (PathErrNotExist ''write'' (handle_name h))), w1)
           | Some d \<Rightarrow>
               ((int (length p), None),
                w1\<lparr>files := (files w1)(handle_name h \<mapsto> d\<lparr>content := content d @ p\<rparr>)\<rparr>)))"

definition file_Close :: "afero_File \<Rightarrow> world \<Rightarrow> ext_error option \<times> world" where
  "file_Close h w = external (CClose (handle_name h)) w"

subsection \<open>Metadata store\<close>

text \<open>
  Modelled from the spec: the operations of package \<open>couchdb\<close> the file unit calls.
  \<open>create\<close> assigns id and revision, \<open>update\<close> and \<open>delete\<close> fail on a revision
  mismatch, every successful write changes the revision. The documents are passed by
  pointer, so the operations return the document as they leave it. The parent cache is
  not persisted.
\<close>

definition fresh_token :: "nat \<Rightarrow> string" where
  "fresh_token n = replicate (Suc n) (CHR ''x'')"

definition couch_CreateDoc :: "FileDoc \<Rightarrow> world \<Rightarrow> (error option \<times> FileDoc) \<times> world" where
  "couch_CreateDoc doc w =
     (case external CCreateDoc w of
        (Some e, w1) \<Rightarrow> ((Some (Ext e), doc), w1)
      | (None, w1) \<Rightarrow>
          (let i = fresh_token (nextid w1);
               doc' = doc\<lparr>DocID := i, DocRev := ''1-'' @ i\<rparr>
           in case docs w1 i of
                Some cur \<Rightarrow> ((Some (Ext (CouchError 409 ''conflict'')), doc), w1)
              | None \<Rightarrow>
                  ((None, doc'),
                   w1\<lparr>docs := (docs w1)(i \<mapsto> doc'\<lparr>parent := None\<rparr>),
                      nextid := Suc (nextid w1)\<rparr>)))"

definition couch_UpdateDoc :: "FileDoc \<Rightarrow> world \<Rightarrow> (error option \<times> FileDoc) \<times> world" where
  "couch_UpdateDoc doc w =
     (case external (CUpdateDoc (DocID doc)) w of
        (Some e, w1) \<Rightarrow> ((Some (Ext e), doc), w1)
      | (None, w1) \<Rightarrow>
          (case docs w1 (DocID doc) of
             None \<Rightarrow> ((Some (Ext (CouchError 404 ''not_found'')), doc), w1)
           | Some cur \<Rightarrow>
               if DocRev cur \<noteq> DocRev doc
               then ((Some (Ext (CouchError 409 ''conflict'')), doc), w1)
               else (let doc' = doc\<lparr>DocRev := ''r-'' @ fresh_token (nextid w1)\<rparr>
                     in ((None, doc'),
                         w1\<lparr>docs := (docs w1)(DocID doc \<mapsto> doc'\<lparr>parent := None\<rparr>),
                            nextid := Suc (nextid w1)\<rparr>))))"

definition couch_DeleteDoc :: "FileDoc \<Rightarrow> world \<Rightarrow> error option \<times> world" where
  "couch_DeleteDoc doc w =
     (case external (CDeleteDoc (DocID doc)) w of
        (Some e, w1) \<Rightarrow> (Some (Ext e), w1)
      | (None, w1) \<Rightarrow>
          (case docs w1 (DocID doc) of
             None \<Rightarrow> (Some (Ext (CouchError 404 ''not_found'')), w1)
           | Some cur \<Rightarrow>
               if DocRev cur \<noteq> DocRev doc
               then (Some (Ext (CouchError 409 ''conflict'')), w1)
               else (None, w1\<lparr>docs := (docs w1)(DocID doc := None)\<rparr>)))"

text \<open>
  Modelled from the spec: \<open>getParentDir\<close> and the directory document's \<open>Path\<close>, which
  live in the companion directory unit. The lookup uses the cached parent when it is
  the directory asked for, and fails with not-found when the directory is unknown.
\<close>

definition GetDirDoc :: "string \<Rightarrow> world \<Rightarrow> (error + DirDoc) \<times> world" where
  "GetDirDoc dirID w =
     (case external (CGetDir dirID) w of
        (Some e, w1) \<Rightarrow> (Inl (Ext e), w1)
      | (None, w1) \<Rightarrow>
          (case dirs w1 dirID of
             None \<Rightarrow> (Inl (Ext OsErrNotExist), w1)
           | Some d \<Rightarrow> (Inr d, w1)))"

definition getParentDir :: "DirDoc option \<Rightarrow> string \<Rightarrow> world \<Rightarrow> (error + DirDoc) \<times> world" where
  "getParentDir cached dirID w =
     (case cached of
        Some d \<Rightarrow> if dir_DocID d = dirID then (Inr d, w) else GetDirDoc dirID w
      | None \<Rightarrow> GetDirDoc dirID w)"

definition DirDoc_Path :: "DirDoc \<Rightarrow> world \<Rightarrow> (error + path) \<times> world" where
  "DirDoc_Path d w = (Inr (Fullpath d), w)"

section \<open>The file unit\<close>

subsection \<open>Path of a file document\<close>

text \<open>
  \<open>FileDoc.Parent\<close> and \<open>FileDoc.Path\<close>. The receiver is a pointer and \<open>Parent\<close> stores
  the directory it found in the cache, so both return the document as they leave it.
\<close>

definition FileDoc_Parent :: "FileDoc \<Rightarrow> world \<Rightarrow> (error + DirDoc) \<times> FileDoc \<times> world" where
  "FileDoc_Parent f w =
     (case getParentDir (parent f) (DirID f) w of
        (Inl err, w1) \<Rightarrow> (Inl err, f, w1)
      | (Inr p, w1) \<Rightarrow> (Inr p, f\<lparr>parent := Some p\<rparr>, w1))"

definition FileDoc_Path :: "FileDoc \<Rightarrow> world \<Rightarrow> (error + path) \<times> FileDoc \<times> world" where
  "FileDoc_Path f w =
     (if DirID f = RootDirID then (Inr (path_Join ''/'' (Name f)), f, w)
      else
        (case FileDoc_Parent f w of
           (Inl err, f1, w1) \<Rightarrow> (Inl err, f1, w1)
         | (Inr p, f1, w1) \<Rightarrow>
             (case DirDoc_Path p w1 of
                (Inl err, w2) \<Rightarrow> (Inl err, f1, w2)
              | (Inr parentPath, w2) \<Rightarrow> (Inr (path_Join parentPath (Name f1)), f1, w2))))"

subsection \<open>Constructor\<close>

text \<open>
  Modelled from the spec: \<open>checkFileName\<close> and \<open>uniqueTags\<close>, helpers of package \<open>vfs\<close>
  declared outside the file unit. A name is validated against a set of disallowed
  characters; tags are deduplicated.
\<close>

definition ForbiddenFilenameChars :: string where
  "ForbiddenFilenameChars = [CHR ''/'', CHR 0x00, CHR 0x0A, CHR 0x0D]"

definition checkFileName :: "string \<Rightarrow> error option" where
  "checkFileName str =
     (if str = [] \<or> (\<exists>c \<in> set str. c \<in> set ForbiddenFilenameChars)
      then Some ErrIllegalFilename else None)"

fun uniqueTags_from :: "string list \<Rightarrow> string list \<Rightarrow> string list" where
  "uniqueTags_from seen [] = []"
| "uniqueTags_from seen (t # ts) =
     (if t = [] \<or> t \<in> set seen then uniqueTags_from seen ts
      else t # uniqueTags_from (t # seen) ts)"

definition uniqueTags :: "string list \<Rightarrow> string list" where
  "uniqueTags tags = uniqueTags_from [] tags"

definition NewFileDoc ::
  "string \<Rightarrow> string \<Rightarrow> int64 \<Rightarrow> bytes option \<Rightarrow> string \<Rightarrow> string \<Rightarrow> time \<Rightarrow> bool \<Rightarrow>
   string list \<Rightarrow> error + FileDoc" where
  "NewFileDoc name dirID sz md5Sum mime cls cdate executable tags =
     (case checkFileName name of
        Some err \<Rightarrow> Inl err
      | None \<Rightarrow>
          (let dirID1 = (if dirID = [] then RootDirID else dirID);
               tags1 = uniqueTags tags
           in Inr \<lparr>Type = FileType, DocID = [], DocRev = [], Name = name, DirID = dirID1,
                   RestorePath = [], CreatedAt = cdate, UpdatedAt = cdate, Size = sz,
                   MD5Sum = md5Sum, Mime = mime, Class = cls, Executable = executable,
                   Tags = tags1, ReferencedBy = [], parent = None\<rparr>))"

subsection \<open>Safe primitives\<close>

text \<open>The two modes are octal 0755 and 0644.\<close>

definition getFileMode :: "bool \<Rightarrow> nat" where
  "getFileMode executable = (if executable then 493 else 420)"

definition safeCreateFile :: "path \<Rightarrow> bool \<Rightarrow> world \<Rightarrow> (error + afero_File) \<times> world" where
  "safeCreateFile name executable w =
     (let flag = [O_WRONLY, O_CREATE, O_EXCL];
          mode = getFileMode executable
      in case fs_OpenFile name flag mode w of
           (Inl e, w1) \<Rightarrow> (Inl (Ext e), w1)
         | (Inr f, w1) \<Rightarrow> (Inr f, w1))"

definition safeRenameFile :: "path \<Rightarrow> path \<Rightarrow> world \<Rightarrow> error option \<times> world" where
  "safeRenameFile oldpath newpath w =
     (let newpath1 = path_Clean newpath;
          oldpath1 = path_Clean oldpath
      in if \<not> path_IsAbs newpath1 \<or> \<not> path_IsAbs oldpath1 then (Some ErrNonAbsolutePath, w)
         else
           (case fs_Stat newpath1 w of
              (None, w1) \<Rightarrow> (Some (Ext OsErrExist), w1)
            | (Some e, w1) \<Rightarrow>
                if \<not> os_IsNotExist (Ext e) then (Some (Ext e), w1)
                else (case fs_Rename oldpath1 newpath1 w1 of
                        (r, w2) \<Rightarrow> (map_option Ext r, w2))))"

subsection \<open>Staged writer\<close>

text \<open>
  The running digest is a \<open>hash.Hash\<close>: the bytes fed so far and the digest function
  of \<open>crypto/md5\<close>, which is taken as a parameter of \<open>CreateFile\<close>.
\<close>

record hash_Hash =
  fed :: bytes
  digest :: "bytes \<Rightarrow> bytes"

definition hash_New :: "(bytes \<Rightarrow> bytes) \<Rightarrow> hash_Hash" where
  "hash_New md5 = \<lparr>fed = [], digest = md5\<rparr>"

definition hash_Write :: "hash_Hash \<Rightarrow> bytes \<Rightarrow> error option \<times> hash_Hash" where
  "hash_Write h p = (None, h\<lparr>fed := fed h @ p\<rparr>)"

definition hash_Sum :: "hash_Hash \<Rightarrow> bytes" where
  "hash_Sum h = digest h (fed h)"

text \<open>\<open>bytes.Equal\<close>: a \<open>nil\<close> slice equals an empty one.\<close>

definition bytes_Equal :: "bytes option \<Rightarrow> bytes \<Rightarrow> bool" where
  "bytes_Equal a b = (case a of None \<Rightarrow> b = [] | Some x \<Rightarrow> x = b)"

record fileCreation =
  fc_w :: int64
  fc_newdoc :: FileDoc
  fc_olddoc :: "FileDoc option"
  fc_newpath :: path
  fc_bakpath :: path
  fc_checkHash :: bool
  fc_hash :: hash_Hash
  fc_err :: "error option"

text \<open>
  A \<open>File\<close> handle; its context is the world the operations are given. A handle for
  reading has no \<open>fileCreation\<close>.
\<close>

record File =
  file_f :: afero_File
  file_fc :: "fileCreation option"

definition time_Now :: "world \<Rightarrow> time" where
  "time_Now w = clock w"

definition backup_path :: "FileDoc \<Rightarrow> path" where
  "backup_path olddoc = ''/.'' @ DocID olddoc @ ''_'' @ DocRev olddoc"

text \<open>
  \<open>CreateFile\<close>. \<open>newdoc\<close> is a pointer the caller keeps, so the document is returned
  as the call leaves it, on every path.
\<close>

definition CreateFile ::
  "(bytes \<Rightarrow> bytes) \<Rightarrow> FileDoc \<Rightarrow> FileDoc option \<Rightarrow> world \<Rightarrow> (error + File) \<times> FileDoc \<times> world" where
  "CreateFile md5 newdoc olddoc w =
     (case FileDoc_Path newdoc w of
        (Inl err, nd, w1) \<Rightarrow> (Inl err, nd, w1)
      | (Inr newpath, nd, w1) \<Rightarrow>
          (let bakpath = (case olddoc of None \<Rightarrow> [] | Some od \<Rightarrow> backup_path od)
           in case (case olddoc of
                      None \<Rightarrow> (None, w1)
                    | Some od \<Rightarrow> safeRenameFile newpath bakpath w1) of
                (Some err, w2) \<Rightarrow>
                  (Inl (if os_IsNotExist err then ErrConflict else err), nd, w2)
              | (None, w2) \<Rightarrow>
                  (let nd1 = (case olddoc of
                                None \<Rightarrow> nd
                              | Some od \<Rightarrow>
                                  nd\<lparr>DocID := DocID od, DocRev := DocRev od,
                                     CreatedAt := CreatedAt od, UpdatedAt := time_Now w2\<rparr>)
                   in case safeCreateFile newpath (Executable nd1) w2 of
                        (Inl err, w3) \<Rightarrow> (Inl err, nd1, w3)
                      | (Inr f, w3) \<Rightarrow>
                          (Inr \<lparr>file_f = f,
                                file_fc = Some \<lparr>fc_w = 0, fc_newdoc = nd1, fc_olddoc = olddoc,
                                                fc_newpath = newpath, fc_bakpath = bakpath,
                                                fc_checkHash = (MD5Sum nd1 \<noteq> None),
                                                fc_hash = hash_New md5, fc_err = None\<rparr>\<rparr>,
                           nd1, w3))))"

definition Write :: "File \<Rightarrow> bytes \<Rightarrow> world \<Rightarrow> (int \<times> error option) \<times> File \<times> world" where
  "Write f p w =
     (case file_fc f of
        None \<Rightarrow> ((0, Some (Ext OsErrInvalid)), f, w)
      | Some fc \<Rightarrow>
          (case file_Write (file_f f) p w of
             ((n, Some e), w1) \<Rightarrow>
               ((n, Some (Ext e)), f\<lparr>file_fc := Some (fc\<lparr>fc_err := Some (Ext e)\<rparr>)\<rparr>, w1)
           | ((n, None), w1) \<Rightarrow>
               (let fc1 = fc\<lparr>fc_w := fc_w fc + word_of_int n\<rparr>
                in case hash_Write (fc_hash fc1) p of
                     (err, h) \<Rightarrow> ((n, err), f\<lparr>file_fc := Some (fc1\<lparr>fc_hash := h\<rparr>)\<rparr>, w1))))"

text \<open>
  \<open>Close\<close>. The deferred function runs after every return that follows its
  registration and reads the variable \<open>err\<close>, which each of these returns has assigned
  before returning; it is \<open>Close_deferred\<close>, applied to the outcome of the body
  \<open>Close_commit\<close>. The errors of the store calls it makes are dropped, as in the source.
\<close>

definition Close_deferred :: "fileCreation \<Rightarrow> error option \<Rightarrow> world \<Rightarrow> world" where
  "Close_deferred fc err w =
     (let werr = fc_err fc
      in if fc_olddoc fc \<noteq> None then
           (if err \<noteq> None \<or> werr \<noteq> None
            then snd (fs_Rename (fc_bakpath fc) (fc_newpath fc) w)
            else snd (fs_Remove (fc_bakpath fc) w))
         else if err \<noteq> None \<or> werr \<noteq> None then snd (fs_Remove (fc_newpath fc) w)
         else w)"

definition Close_commit ::
  "afero_File \<Rightarrow> fileCreation \<Rightarrow> world \<Rightarrow> error option \<times> fileCreation \<times> world" where
  "Close_commit h fc w =
     (case file_Close h w of
        (Some e, w1) \<Rightarrow> (Some (Ext e), fc, w1)
      | (None, w1) \<Rightarrow>
          (let newdoc = fc_newdoc fc; olddoc = fc_olddoc fc; written = fc_w fc;
               md5sum = hash_Sum (fc_hash fc)
           in if fc_checkHash fc \<and> \<not> bytes_Equal (MD5Sum newdoc) md5sum
              then (Some ErrInvalidHash, fc, w1)
              else
                (let newdoc1 = (if Size newdoc <s 0 then newdoc\<lparr>Size := written\<rparr> else newdoc);
                     newdoc2 = (if MD5Sum newdoc1 = None then newdoc1\<lparr>MD5Sum := Some md5sum\<rparr>
                                else newdoc1)
                 in if Size newdoc2 \<noteq> written
                    then (Some ErrContentLengthMismatch, fc\<lparr>fc_newdoc := newdoc2\<rparr>, w1)
                    else
                      (case (if olddoc \<noteq> None then couch_UpdateDoc newdoc2 w1
                             else couch_CreateDoc newdoc2 w1) of
                         ((err, newdoc3), w2) \<Rightarrow> (err, fc\<lparr>fc_newdoc := newdoc3\<rparr>, w2)))))"

definition Close :: "File \<Rightarrow> world \<Rightarrow> error option \<times> File \<times> world" where
  "Close f w =
     (case file_fc f of
        None \<Rightarrow> (case file_Close (file_f f) w of (r, w1) \<Rightarrow> (map_option Ext r, f, w1))
      | Some fc \<Rightarrow>
          (case Close_commit (file_f f) fc w of
             (err, fc1, w1) \<Rightarrow> (err, f\<lparr>file_fc := Some fc1\<rparr>, Close_deferred fc1 err w1)))"

subsection \<open>Permanent destroy\<close>

definition DestroyFile :: "FileDoc \<Rightarrow> world \<Rightarrow> error option \<times> FileDoc \<times> world" where
  "DestroyFile doc w =
     (case FileDoc_Path doc w of
        (Inl err, doc1, w1) \<Rightarrow> (Some err, doc1, w1)
      | (Inr p, doc1, w1) \<Rightarrow>
          (case fs_Remove p w1 of
             (Some e, w2) \<Rightarrow> (Some (Ext e), doc1, w2)
           | (None, w2) \<Rightarrow>
               (case couch_DeleteDoc doc1 w2 of (r, w3) \<Rightarrow> (r, doc1, w3))))"

subsection \<open>Metadata mutator\<close>

text \<open>
  \<open>DocPatch\<close>: every field is a pointer that may be \<open>nil\<close>.

  Modelled from the spec: \<open>normalizeDocPatch\<close>, declared outside the file unit. It
  fills every field the patch leaves unset from the current values and checks the
  patch against the creation time; it gives back the patch it was given, filled.
\<close>

record DocPatch =
  patch_Name :: "string option"
  patch_DirID :: "string option"
  patch_RestorePath :: "string option"
  patch_Tags :: "string list option"
  patch_UpdatedAt :: "time option"
  patch_Executable :: "bool option"

definition or_else :: "'a option \<Rightarrow> 'a option \<Rightarrow> 'a option" where
  "or_else a b = (case a of None \<Rightarrow> b | Some x \<Rightarrow> Some x)"

definition normalizeDocPatch :: "DocPatch \<Rightarrow> DocPatch \<Rightarrow> time \<Rightarrow> error + DocPatch" where
  "normalizeDocPatch data patch cdate =
     (let patch1 = \<lparr>patch_Name = or_else (patch_Name patch) (patch_Name data),
                    patch_DirID = or_else (patch_DirID patch) (patch_DirID data),
                    patch_RestorePath = or_else (patch_RestorePath patch) (patch_RestorePath data),
                    patch_Tags = or_else (patch_Tags patch) (patch_Tags data),
                    patch_UpdatedAt = or_else (patch_UpdatedAt patch) (patch_UpdatedAt data),
                    patch_Executable = or_else (patch_Executable patch) (patch_Executable data)\<rparr>
      in case patch_UpdatedAt patch1 of
           None \<Rightarrow> Inr patch1
         | Some t \<Rightarrow> if t < cdate then Inl ErrIllegalTime else Inr patch1)"

definition ModifyFileMetadata ::
  "FileDoc \<Rightarrow> DocPatch \<Rightarrow> world \<Rightarrow> (FileDoc option \<times> error option) \<times> FileDoc \<times> world" where
  "ModifyFileMetadata olddoc patch0 w =
     (let cdate = CreatedAt olddoc
      in case normalizeDocPatch
                \<lparr>patch_Name = Some (Name olddoc), patch_DirID = Some (DirID olddoc),
                 patch_RestorePath = Some (RestorePath olddoc), patch_Tags = Some (Tags olddoc),
                 patch_UpdatedAt = Some (UpdatedAt olddoc),
                 patch_Executable = Some (Executable olddoc)\<rparr> patch0 cdate of
           Inl err \<Rightarrow> ((None, Some err), olddoc, w)
         | Inr patch \<Rightarrow>
             (case NewFileDoc (the (patch_Name patch)) (the (patch_DirID patch)) (Size olddoc)
                     (MD5Sum olddoc) (Mime olddoc) (Class olddoc) cdate
                     (the (patch_Executable patch)) (the (patch_Tags patch)) of
                Inl err \<Rightarrow> ((None, Some err), olddoc, w)
              | Inr nd0 \<Rightarrow>
                  (let nd1 = nd0\<lparr>RestorePath := the (patch_RestorePath patch)\<rparr>
                   in case (if DirID nd1 \<noteq> DirID olddoc
                            then (case FileDoc_Parent nd1 w of
                                    (Inl err, nd, w1) \<Rightarrow> (None, Some err, nd, w1)
                                  | (Inr p, nd, w1) \<Rightarrow> (Some p, None, nd, w1))
                            else (parent olddoc, None, nd1, w)) of
                        (par, Some err, nd2, w1) \<Rightarrow> ((None, Some err), olddoc, w1)
                      | (par, None, nd2, w1) \<Rightarrow>
                          (let nd3 = nd2\<lparr>DocID := DocID olddoc, DocRev := DocRev olddoc,
                                         UpdatedAt := the (patch_UpdatedAt patch),
                                         parent := par\<rparr>
                           in case FileDoc_Path olddoc w1 of
                                (Inl err, od1, w2) \<Rightarrow> ((None, Some err), od1, w2)
                              | (Inr oldpath, od1, w2) \<Rightarrow>
                                  (case FileDoc_Path nd3 w2 of
                                     (Inl err, nd4, w3) \<Rightarrow> ((None, Some err), od1, w3)
                                   | (Inr newpath, nd4, w3) \<Rightarrow>
                                       (case (if newpath \<noteq> oldpath
                                              then safeRenameFile oldpath newpath w3
                                              else (None, w3)) of
                                          (Some err, w4) \<Rightarrow> ((None, Some err), od1, w4)
                                        | (None, w4) \<Rightarrow>
                                            (case (if Executable nd4 \<noteq> Executable od1
                                                   then (case fs_Chmod newpath
                                                                (getFileMode (Executable nd4)) w4 of
                                                           (r, w5) \<Rightarrow> (map_option Ext r, w5))
                                                   else (None, w4)) of
                                               (Some err, w5) \<Rightarrow> ((None, Some err), od1, w5)
                                             | (None, w5) \<Rightarrow>
                                                 (case couch_UpdateDoc nd4 w5 of
                                                    ((err, nd5), w6) \<Rightarrow>
                                                      ((Some nd5, err), od1, w6)))))))))"

subsection \<open>Trash\<close>

text \<open>
  Modelled from the spec: the conflict namer \<open>tryOrUseSuffix\<close> and the decorated
  suffix pattern \<open>conflictFormat\<close>, declared outside the file unit. The namer runs the
  operation on the candidate name; while the operation fails with a naming collision
  it tries again with the pattern applied to the candidate and the number of
  collisions so far, within a bounded number of tries, and returns the last error.
\<close>

fun decimal :: "nat \<Rightarrow> string" where
  "decimal n =
     (if n < 10 then [char_of (48 + n)]
      else decimal (n div 10) @ [char_of (48 + n mod 10)])"

declare decimal.simps [simp del]

definition conflictFormat :: "string \<Rightarrow> nat \<Rightarrow> string" where
  "conflictFormat name k = name @ '' (__cozy__: '' @ decimal k @ '')''"

definition is_exist :: "error option \<Rightarrow> bool" where
  "is_exist err = (case err of None \<Rightarrow> False | Some e \<Rightarrow> os_IsExist e)"

fun tryOrUseSuffix_from ::
  "nat \<Rightarrow> nat \<Rightarrow> error option \<Rightarrow> string \<Rightarrow> (string \<Rightarrow> nat \<Rightarrow> string) \<Rightarrow>
   (string \<Rightarrow> 's \<Rightarrow> error option \<times> 's) \<Rightarrow> 's \<Rightarrow> error option \<times> 's" where
  "tryOrUseSuffix_from 0 nconflict err name format action st = (err, st)"
| "tryOrUseSuffix_from (Suc n) nconflict err name format action st =
     (case action (if nconflict = 0 then name else format name nconflict) st of
        (err1, st1) \<Rightarrow>
          if \<not> is_exist err1 then (err1, st1)
          else tryOrUseSuffix_from n (Suc nconflict) err1 name format action st1)"

definition conflictTries :: nat where
  "conflictTries = 1000"

definition tryOrUseSuffix ::
  "string \<Rightarrow> (string \<Rightarrow> nat \<Rightarrow> string) \<Rightarrow> (string \<Rightarrow> 's \<Rightarrow> error option \<times> 's) \<Rightarrow> 's \<Rightarrow>
   error option \<times> 's" where
  "tryOrUseSuffix name format action st =
     tryOrUseSuffix_from conflictTries 0 None name format action st"

text \<open>
  \<open>TrashFile\<close>. The closure given to the namer assigns the captured variables
  \<open>newdoc\<close> and \<open>err\<close> and works on the document behind \<open>olddoc\<close>; they are the state
  the namer threads through its tries, with the world. The namer's own result is
  dropped, as in the source.
\<close>

definition TrashFile ::
  "FileDoc \<Rightarrow> world \<Rightarrow> (FileDoc option \<times> error option) \<times> FileDoc \<times> world" where
  "TrashFile olddoc w =
     (case FileDoc_Path olddoc w of
        (Inl err, od, w1) \<Rightarrow> ((None, Some err), od, w1)
      | (Inr oldpath, od, w1) \<Rightarrow>
          if strings_HasPrefix oldpath TrashDirName then ((None, Some ErrFileInTrash), od, w1)
          else
            (let trashDirID = TrashDirID;
                 restorePath = path_Dir oldpath
             in case tryOrUseSuffix (Name od) conflictFormat
                       (\<lambda>name (newdoc, err, od1, wa).
                          case ModifyFileMetadata od1
                                 \<lparr>patch_Name = Some name, patch_DirID = Some trashDirID,
                                  patch_RestorePath = Some restorePath, patch_Tags = None,
                                  patch_UpdatedAt = None, patch_Executable = None\<rparr> wa of
                            ((nd, e), od2, wb) \<Rightarrow> (e, (nd, e, od2, wb)))
                       (None, None, od, w1) of
                  (r, (newdoc, err, od3, w2)) \<Rightarrow> ((newdoc, err), od3, w2)))"

section \<open>Example inputs\<close>

text \<open>
  Concrete documents and worlds on which the theorems below are exercised. The digest
  function of the examples is a stand-in with the shape of a digest (bytes to bytes).
\<close>

definition ex_digest :: "bytes \<Rightarrow> bytes" where
  "ex_digest bs = [word_of_nat (length bs), 7]"

definition ex_doc :: FileDoc where
  "ex_doc = \<lparr>Type = FileType, DocID = [], DocRev = [], Name = ''a.txt'', DirID = RootDirID,
             RestorePath = [], CreatedAt = 5, UpdatedAt = 5, Size = - 1, MD5Sum = None,
             Mime = ''text/plain'', Class = ''text'', Executable = False, Tags = [],
             ReferencedBy = [], parent = None\<rparr>"

definition ex_trash_dir :: DirDoc where
  "ex_trash_dir = \<lparr>dir_DocID = TrashDirID, Fullpath = TrashDirName\<rparr>"

definition ex_world :: world where
  "ex_world = \<lparr>files = Map.empty, docs = Map.empty, dirs = [TrashDirID \<mapsto> ex_trash_dir],
               faults = [], calls = [], clock = 9, nextid = 0\<rparr>"

definition ex_old :: FileDoc where
  "ex_old = ex_doc\<lparr>DocID := ''f1'', DocRev := ''1-f1'', Size := 3,
                   MD5Sum := Some (ex_digest [1, 2, 3])\<rparr>"

definition ex_world_old :: world where
  "ex_world_old = ex_world\<lparr>files := [''/a.txt'' \<mapsto> \<lparr>content = [1, 2, 3], perm = 420\<rparr>],
                           docs := [''f1'' \<mapsto> ex_old]\<rparr>"

section \<open>Unfolding rules\<close>

lemmas fs_defs = external_def fs_Stat_def fs_Rename_def fs_Remove_def fs_Chmod_def
  fs_OpenFile_def file_Write_def file_Close_def

lemmas couch_defs = couch_CreateDoc_def couch_UpdateDoc_def couch_DeleteDoc_def
  GetDirDoc_def getParentDir_def DirDoc_Path_def fresh_token_def

lemmas path_defs = path_Clean_def path_IsAbs_def path_Join_def path_Dir_def

lemmas ex_defs = ex_world_def ex_world_old_def ex_doc_def ex_old_def ex_digest_def
  ex_trash_dir_def RootDirID_def TrashDirID_def TrashDirName_def FileType_def

section \<open>The constructor defaults an empty parent to the root\<close>

text \<open>
  C10. For every file name that passes the name check and whatever the other
  arguments, \<open>NewFileDoc\<close> called with an empty parent id succeeds, and the document it
  returns has the reserved root directory id as its parent id: the empty parent is
  defaulted, not rejected.
\<close>

theorem NewFileDoc_empty_parent_is_root:
  assumes "checkFileName name = None"
  shows "\<exists>doc. NewFileDoc name [] sz md5Sum mime cls cdate executable tags = Inr doc
           \<and> DirID doc = RootDirID"
  using assms by (simp add: NewFileDoc_def)

theorem NewFileDoc_empty_parent_is_root_witness:
  "checkFileName ''a.txt'' = None
   \<and> (\<exists>doc. NewFileDoc ''a.txt'' [] 12 None ''text/plain'' ''text'' 0 False [] = Inr doc
           \<and> DirID doc = RootDirID)"
proof -
  have h: "checkFileName ''a.txt'' = None"
    by (simp add: checkFileName_def ForbiddenFilenameChars_def)
  from NewFileDoc_empty_parent_is_root [OF h, of 12 None "''text/plain''" "''text''" 0 False "[]"] h
  show ?thesis by simp
qed

section \<open>Collision-rejecting rename\<close>

text \<open>
  C9, as amended. \<open>safeRenameFile\<close> normalizes both paths and fails with
  \<open>ErrNonAbsolutePath\<close>, calling no store, if either normalized path is not absolute.
  Otherwise it stats the normalized new path: if the stat succeeds it fails with the
  already-exists error; if the stat fails with an error other than not-exist it returns
  that error and renames nothing; only when the stat reports not-exist does it delegate
  to the content store's rename of the normalized paths and return its result.
\<close>

theorem safeRenameFile_cases:
  "(\<not> path_IsAbs (path_Clean newpath) \<or> \<not> path_IsAbs (path_Clean oldpath) \<longrightarrow>
      safeRenameFile oldpath newpath w = (Some ErrNonAbsolutePath, w))
   \<and> (path_IsAbs (path_Clean newpath) \<and> path_IsAbs (path_Clean oldpath) \<longrightarrow>
        (case fs_Stat (path_Clean newpath) w of
           (None, w1) \<Rightarrow> safeRenameFile oldpath newpath w = (Some (Ext OsErrExist), w1)
         | (Some e, w1) \<Rightarrow>
             if os_IsNotExist (Ext e)
             then safeRenameFile oldpath newpath w =
                    (map_option Ext (fst (fs_Rename (path_Clean oldpath) (path_Clean newpath) w1)),
                     snd (fs_Rename (path_Clean oldpath) (path_Clean newpath) w1))
             else safeRenameFile oldpath newpath w = (Some (Ext e), w1)))"
  by (simp add: safeRenameFile_def Let_def split: prod.splits option.splits)

text \<open>
  The four branches on concrete inputs: a relative old path; an occupied new path; a
  free new path, where the entry moves; a stat that fails with an input/output error.
\<close>

theorem safeRenameFile_cases_witness:
  "\<not> path_IsAbs (path_Clean ''a.txt'')
   \<and> safeRenameFile ''a.txt'' ''/b.txt'' ex_world_old = (Some ErrNonAbsolutePath, ex_world_old)
   \<and> path_IsAbs (path_Clean ''/b.txt'') \<and> path_IsAbs (path_Clean ''/a.txt'')
   \<and> fst (safeRenameFile ''/b.txt'' ''/a.txt'' ex_world_old) = Some (Ext OsErrExist)
   \<and> fst (safeRenameFile ''/a.txt'' ''/b.txt'' ex_world_old) = None
   \<and> files (snd (safeRenameFile ''/a.txt'' ''/b.txt'' ex_world_old)) ''/a.txt'' = None
   \<and> files (snd (safeRenameFile ''/a.txt'' ''/b.txt'' ex_world_old)) ''/b.txt''
       = Some \<lparr>content = [1, 2, 3], perm = 420\<rparr>
   \<and> fst (safeRenameFile ''/a.txt'' ''/b.txt'' (ex_world_old\<lparr>faults := [Some (IOError ''stat'')]\<rparr>))
       = Some (Ext (IOError ''stat''))"
  using safeRenameFile_cases [of "''/b.txt''" "''a.txt''" ex_world_old]
    safeRenameFile_cases [of "''/a.txt''" "''/b.txt''" ex_world_old]
    safeRenameFile_cases [of "''/b.txt''" "''/a.txt''" ex_world_old]
    safeRenameFile_cases [of "''/b.txt''" "''/a.txt''"
      "ex_world_old\<lparr>faults := [Some (IOError ''stat'')]\<rparr>"]
  by (simp add: fs_defs path_defs ex_defs)

text \<open>
  The claim as first stated ("otherwise it delegates to the rename") fails when the
  stat itself fails: the new path is free and the store's rename would succeed, yet
  \<open>safeRenameFile\<close> returns the stat's error, and the only call it made is the stat.
\<close>

theorem safeRenameFile_stat_failure_counterexample:
  "fst (safeRenameFile ''/a.txt'' ''/b.txt'' (ex_world_old\<lparr>faults := [Some (IOError ''stat'')]\<rparr>))
     = Some (Ext (IOError ''stat''))
   \<and> calls (snd (safeRenameFile ''/a.txt'' ''/b.txt''
                   (ex_world_old\<lparr>faults := [Some (IOError ''stat'')]\<rparr>))) = [CStat ''/b.txt'']
   \<and> files (snd (safeRenameFile ''/a.txt'' ''/b.txt''
                   (ex_world_old\<lparr>faults := [Some (IOError ''stat'')]\<rparr>))) ''/b.txt'' = None
   \<and> fst (fs_Rename ''/a.txt'' ''/b.txt'' ex_world_old) = None"
  by (simp add: safeRenameFile_def fs_defs path_defs ex_defs)

end
